theory Spec2Isabelle
  imports Main "HOL-Library.Stream" "HOL-Library.Sublist" "HOL-Library.Multiset"
begin

section \<open>The test maker backend: question generation and test assembly\<close>

text \<open>
  This theory embeds the question generator of \<^verbatim>\<open>main.py\<close>: the Bloom level table,
  \<^verbatim>\<open>generate_mcq\<close>, \<^verbatim>\<open>generate_short\<close>, the batch loop
  \<^verbatim>\<open>generate_questions\<close>, the assembly done by the endpoint
  \<^verbatim>\<open>generate_test\<close> and the field constraints of the
  \<^verbatim>\<open>GenerateRequest\<close> model.

  Strings are \<open>char list\<close> and stand for ASCII text. Python integers are \<open>int\<close>.
  Every exception the Python can raise is a value \<open>Inl e\<close> of a sum type.
\<close>

subsection \<open>Errors\<close>

datatype error = IndexError | KeyError | ValueError | ValidationError

subsection \<open>The random source\<close>

text \<open>
  The Python uses the process-wide generator of the module \<^verbatim>\<open>random\<close>. Its state
  is made explicit here: a random source is the infinite sequence of the raw draws still
  to come, and every operation returns the source it leaves behind. No assumption is made
  on the sequence, so a statement for all sources holds for every outcome of the
  generator.

  \<^verbatim>\<open>_randbelow(n)\<close> consumes one draw and returns a number below \<open>n\<close>.
\<close>

type_synonym rng = "nat stream"

definition randbelow :: "nat \<Rightarrow> rng \<Rightarrow> nat \<times> rng" where
  "randbelow n g = (shd g mod n, stl g)"

text \<open>
  \<^verbatim>\<open>random.choice(seq)\<close>: raises IndexError on an empty sequence, otherwise returns
  \<^verbatim>\<open>seq[_randbelow(len(seq))]\<close>.
\<close>

definition choice :: "'a list \<Rightarrow> rng \<Rightarrow> error + ('a \<times> rng)" where
  "choice seq g =
     (if length seq = 0 then Inl IndexError
      else (case randbelow (length seq) g of (i, g') \<Rightarrow> Inr (seq ! i, g')))"

text \<open>
  \<^verbatim>\<open>random.shuffle(x)\<close>:
  \<^verbatim>\<open>for i in reversed(range(1, len(x))): j = randbelow(i + 1); x[i], x[j] = x[j], x[i]\<close>.
  The first argument of \<open>shuffle_loop\<close> is the current \<open>i\<close>; the loop stops below 1.
\<close>

fun shuffle_loop :: "nat \<Rightarrow> 'a list \<Rightarrow> rng \<Rightarrow> 'a list \<times> rng" where
  "shuffle_loop 0 x g = (x, g)"
| "shuffle_loop (Suc k) x g =
     (case randbelow (Suc k + 1) g of
        (j, g') \<Rightarrow> shuffle_loop k ((x[Suc k := x ! j])[j := x ! Suc k]) g')"

definition shuffle :: "'a list \<Rightarrow> rng \<Rightarrow> 'a list \<times> rng" where
  "shuffle x g = shuffle_loop (length x - 1) x g"

subsection \<open>Python built-ins used by the generator\<close>

text \<open>\<^verbatim>\<open>list.index(v)\<close>: the first position holding \<open>v\<close>, ValueError when there is none.\<close>

fun list_index :: "'a list \<Rightarrow> 'a \<Rightarrow> error + nat" where
  "list_index [] v = Inl ValueError"
| "list_index (x # xs) v =
     (if x = v then Inr 0
      else (case list_index xs v of Inl e \<Rightarrow> Inl e | Inr k \<Rightarrow> Inr (Suc k)))"

text \<open>The decimal rendering of an integer inside an f-string.\<close>

definition digit_char :: "nat \<Rightarrow> char" where
  "digit_char d = ''0123456789'' ! d"

fun str_nat :: "nat \<Rightarrow> string" where
  "str_nat n = (if n < 10 then [digit_char n] else str_nat (n div 10) @ [digit_char (n mod 10)])"

declare str_nat.simps [simp del]

definition str_int :: "int \<Rightarrow> string" where
  "str_int i = (if i < 0 then CHR ''-'' # str_nat (nat (- i)) else str_nat (nat i))"

text \<open>
  \<^verbatim>\<open>str.title()\<close> on ASCII text: a letter that follows a letter is lowercased, any
  other letter is uppercased, every other character is kept.
\<close>

definition is_lower :: "char \<Rightarrow> bool" where
  "is_lower c = (97 \<le> (of_char c :: nat) \<and> (of_char c :: nat) \<le> 122)"

definition is_upper :: "char \<Rightarrow> bool" where
  "is_upper c = (65 \<le> (of_char c :: nat) \<and> (of_char c :: nat) \<le> 90)"

definition is_cased :: "char \<Rightarrow> bool" where
  "is_cased c = (is_lower c \<or> is_upper c)"

definition to_upper :: "char \<Rightarrow> char" where
  "to_upper c = (if is_lower c then char_of ((of_char c :: nat) - 32) else c)"

definition to_lower :: "char \<Rightarrow> char" where
  "to_lower c = (if is_upper c then char_of ((of_char c :: nat) + 32) else c)"

fun title_loop :: "bool \<Rightarrow> string \<Rightarrow> string" where
  "title_loop previous_is_cased [] = []"
| "title_loop previous_is_cased (c # cs) =
     (if previous_is_cased then to_lower c else to_upper c) # title_loop (is_cased c) cs"

definition str_title :: "string \<Rightarrow> string" where
  "str_title s = title_loop False s"

text \<open>\<^verbatim>\<open>range(n)\<close>: the integers from 0 up to \<open>n - 1\<close>; empty when \<open>n \<le> 0\<close>.\<close>

definition py_range :: "int \<Rightarrow> int list" where
  "py_range n = map int [0..<nat n]"

text \<open>A \<^verbatim>\<open>for\<close> loop whose body may raise: the first error ends the loop.\<close>

fun for_loop :: "('s \<Rightarrow> 'i \<Rightarrow> error + 's) \<Rightarrow> 's \<Rightarrow> 'i list \<Rightarrow> error + 's" where
  "for_loop body s [] = Inr s"
| "for_loop body s (i # is) =
     (case body s i of Inl e \<Rightarrow> Inl e | Inr s' \<Rightarrow> for_loop body s' is)"

subsection \<open>Models\<close>

record Question =
  qtext :: string
  qtype :: string
  options :: "string list option"
  correct_index :: "int option"
  answer_text :: "string option"
  points :: int
  bloom_level :: "string option"

record TestModel =
  title :: string
  subject :: "string option"
  test_grade_level :: "string option"
  description :: "string option"
  questions :: "Question list"
  duration_minutes :: "int option"
  tags :: "string list"

subsection \<open>The generator\<close>

definition BLOOM_LEVELS :: "string list" where
  "BLOOM_LEVELS = [''Remember'', ''Understand'', ''Apply'', ''Analyze'', ''Evaluate'', ''Create'']"

definition verbs :: "string \<rightharpoonup> string list" where
  "verbs = map_of
     [(''Remember'', [''define'', ''list'', ''identify'', ''recall'']),
      (''Understand'', [''explain'', ''describe'', ''summarize'', ''classify'']),
      (''Apply'', [''use'', ''demonstrate'', ''solve'', ''compute'']),
      (''Analyze'', [''compare'', ''distinguish'', ''analyze'', ''differentiate'']),
      (''Evaluate'', [''assess'', ''justify'', ''critique'', ''evaluate'']),
      (''Create'', [''design'', ''compose'', ''develop'', ''formulate''])]"

definition mcq_stem :: "string \<Rightarrow> int \<Rightarrow> string \<Rightarrow> string \<Rightarrow> string" where
  "mcq_stem topic idx bloom verb =
     (if bloom \<in> set [''Apply'', ''Analyze'', ''Evaluate'', ''Create'']
      then ''Q'' @ str_int (idx + 1) @ ''. In the context of '' @ topic @ '', '' @ verb
             @ '' the correct option.''
      else ''Q'' @ str_int (idx + 1) @ ''. Which of the following best relates to '' @ topic
             @ ''?'')"

definition mcq_options :: "string \<Rightarrow> string \<Rightarrow> string \<Rightarrow> string \<times> string list" where
  "mcq_options topic bloom verb =
     (if bloom \<in> set [''Remember'', ''Understand'']
      then (''A concise fact about '' @ topic,
            [''An unrelated idea about '' @ topic,
             ''A partially correct idea about '' @ topic,
             ''A common misconception about '' @ topic])
      else (''An example that shows how to '' @ verb @ '' using '' @ topic,
            [''An example unrelated to '' @ topic,
             ''Incorrect application of '' @ topic,
             ''Vague statement without using '' @ topic]))"

definition generate_mcq :: "string \<Rightarrow> string option \<Rightarrow> int \<Rightarrow> rng \<Rightarrow> error + (Question \<times> rng)" where
  "generate_mcq topic grade idx g =
     (case choice BLOOM_LEVELS g of
        Inl e \<Rightarrow> Inl e
      | Inr (bloom, g1) \<Rightarrow>
     (case verbs bloom of
        None \<Rightarrow> Inl KeyError
      | Some vs \<Rightarrow>
     (case choice vs g1 of
        Inl e \<Rightarrow> Inl e
      | Inr (verb, g2) \<Rightarrow>
     (case mcq_options topic bloom verb of
        (correct, distractors) \<Rightarrow>
     (case shuffle (distractors @ [correct]) g2 of
        (opts, g3) \<Rightarrow>
     (case list_index opts correct of
        Inl e \<Rightarrow> Inl e
      | Inr ci \<Rightarrow>
          Inr (\<lparr>qtext = mcq_stem topic idx bloom verb, qtype = ''mcq'', options = Some opts,
                correct_index = Some (int ci), answer_text = None, points = 1,
                bloom_level = Some bloom\<rparr>, g3)))))))"

definition generate_short :: "string \<Rightarrow> string option \<Rightarrow> int \<Rightarrow> rng \<Rightarrow> error + (Question \<times> rng)" where
  "generate_short topic grade idx g =
     (case choice BLOOM_LEVELS g of
        Inl e \<Rightarrow> Inl e
      | Inr (bloom, g1) \<Rightarrow>
          Inr (\<lparr>qtext = ''Q'' @ str_int (idx + 1) @ ''. Briefly explain the following about ''
                         @ topic @ '':'',
                qtype = ''short'', options = None, correct_index = None,
                answer_text = Some (''A 2-3 sentence explanation referencing '' @ topic @ ''.''),
                points = 2, bloom_level = Some bloom\<rparr>, g1))"

subsection \<open>Requests\<close>

record GenerateRequest =
  topic :: string
  grade_level :: "string option"
  num_questions :: int
  question_type :: string

text \<open>
  The body of a request before validation: every field may be missing. The constraints
  are those the class \<^verbatim>\<open>GenerateRequest\<close> declares: \<^verbatim>\<open>topic\<close> is required,
  \<^verbatim>\<open>grade_level\<close> defaults to None, \<^verbatim>\<open>num_questions\<close> defaults to 5 and has
  \<^verbatim>\<open>ge=1, le=50\<close>, \<^verbatim>\<open>question_type\<close> defaults to \<^verbatim>\<open>"mcq"\<close>. A
  \<^verbatim>\<open>description\<close> of a field constrains nothing.
\<close>

record RawRequest =
  raw_topic :: "string option"
  raw_grade_level :: "string option"
  raw_num_questions :: "int option"
  raw_question_type :: "string option"

definition validate_request :: "RawRequest \<Rightarrow> error + GenerateRequest" where
  "validate_request raw =
     (case raw_topic raw of
        None \<Rightarrow> Inl ValidationError
      | Some t \<Rightarrow>
          (let n = (case raw_num_questions raw of None \<Rightarrow> 5 | Some k \<Rightarrow> k);
               qt = (case raw_question_type raw of None \<Rightarrow> ''mcq'' | Some s \<Rightarrow> s)
           in if (case raw_num_questions raw of None \<Rightarrow> False | Some k \<Rightarrow> \<not> (1 \<le> k \<and> k \<le> 50))
              then Inl ValidationError
              else Inr \<lparr>topic = t, grade_level = raw_grade_level raw,
                        num_questions = n, question_type = qt\<rparr>))"

subsection \<open>The batch loop\<close>

text \<open>
  One iteration of the loop of \<^verbatim>\<open>generate_questions\<close>; the state is the list
  \<^verbatim>\<open>qs\<close> and the random source.
\<close>

definition resolve_qtype :: "GenerateRequest \<Rightarrow> rng \<Rightarrow> error + (string \<times> rng)" where
  "resolve_qtype req g =
     (if question_type req = ''mixed'' then choice [''mcq'', ''short''] g
      else Inr (question_type req, g))"

definition gen_step :: "GenerateRequest \<Rightarrow> Question list \<times> rng \<Rightarrow> int \<Rightarrow> error + (Question list \<times> rng)" where
  "gen_step req s i =
     (case s of (qs, g) \<Rightarrow>
     (case resolve_qtype req g of
        Inl e \<Rightarrow> Inl e
      | Inr (qt, g1) \<Rightarrow>
          (if qt = ''short''
           then (case generate_short (topic req) (grade_level req) i g1 of
                   Inl e \<Rightarrow> Inl e | Inr (q, g2) \<Rightarrow> Inr (qs @ [q], g2))
           else (case generate_mcq (topic req) (grade_level req) i g1 of
                   Inl e \<Rightarrow> Inl e | Inr (q, g2) \<Rightarrow> Inr (qs @ [q], g2)))))"

definition generate_questions :: "GenerateRequest \<Rightarrow> rng \<Rightarrow> error + (Question list \<times> rng)" where
  "generate_questions req g = for_loop (gen_step req) ([], g) (py_range (num_questions req))"

subsection \<open>The endpoint\<close>

definition generate_test :: "GenerateRequest \<Rightarrow> rng \<Rightarrow> error + (TestModel \<times> rng)" where
  "generate_test req g =
     (case generate_questions req g of
        Inl e \<Rightarrow> Inl e
      | Inr (qs, g') \<Rightarrow>
          Inr (\<lparr>title = str_title (topic req) @ '' - '' @ str_int (num_questions req)
                          @ '' Question Test'',
                subject = Some (topic req),
                test_grade_level = grade_level req,
                description = Some (''Auto-generated '' @ question_type req @ '' test about ''
                                      @ topic req),
                questions = qs,
                duration_minutes = Some (max 10 (num_questions req * 2)),
                tags = [''auto'', ''generated'', topic req]\<rparr>, g'))"

text \<open>
  The route \<^verbatim>\<open>POST /api/tests/generate\<close>: the framework validates the body against
  \<^verbatim>\<open>GenerateRequest\<close> first and calls the handler only with a validated request.
\<close>

definition post_generate :: "RawRequest \<Rightarrow> rng \<Rightarrow> error + (TestModel \<times> rng)" where
  "post_generate raw g =
     (case validate_request raw of Inl e \<Rightarrow> Inl e | Inr req \<Rightarrow> generate_test req g)"

section \<open>Properties\<close>

subsection \<open>The random source and the built-ins\<close>

lemma choice_nonempty:
  "seq \<noteq> [] \<Longrightarrow> choice seq g = Inr (seq ! (shd g mod length seq), stl g)"
  by (simp add: choice_def randbelow_def)

lemma choice_mem:
  "choice seq g = Inr (x, g') \<Longrightarrow> x \<in> set seq \<and> g' = stl g"
  by (auto simp: choice_def randbelow_def split: if_splits)

lemma shuffle_loop_mset:
  "k < length x \<Longrightarrow> mset (fst (shuffle_loop k x g)) = mset x"
proof (induction k arbitrary: x g)
  case 0
  then show ?case by simp
next
  case (Suc k)
  let ?j = "shd g mod (Suc k + 1)"
  have j: "?j < length x" using Suc.prems
    by (metis Suc_eq_plus1 Suc_lessI less_Suc_eq_le mod_less_divisor not_less_eq order.strict_trans2 zero_less_Suc)
  have "mset ((x[Suc k := x ! ?j])[?j := x ! Suc k]) = mset x"
    using mset_swap[of ?j x "Suc k"] j Suc.prems by simp
  moreover have "k < length ((x[Suc k := x ! ?j])[?j := x ! Suc k])"
    using Suc.prems by simp
  ultimately show ?case using Suc.IH[of "(x[Suc k := x ! ?j])[?j := x ! Suc k]" "stl g"]
    by (simp add: randbelow_def)
qed

lemma shuffle_mset: "mset (fst (shuffle x g)) = mset x"
proof (cases x)
  case Nil
  then show ?thesis by (simp add: shuffle_def)
next
  case (Cons a as)
  then show ?thesis by (simp add: shuffle_def shuffle_loop_mset)
qed

lemma list_index_mem:
  "v \<in> set xs \<Longrightarrow> \<exists>k. list_index xs v = Inr k \<and> k < length xs \<and> xs ! k = v"
  by (induction xs) auto

lemma verbs_bloom:
  "bloom \<in> set BLOOM_LEVELS \<Longrightarrow> \<exists>vs. verbs bloom = Some vs \<and> vs \<noteq> []"
  by (auto simp: BLOOM_LEVELS_def verbs_def)


lemma shuffle_loop_rng: "snd (shuffle_loop k x g) = sdrop k g"
  by (induction k arbitrary: x g) (simp_all add: randbelow_def)

lemma shuffle_rng: "snd (shuffle x g) = sdrop (length x - 1) g"
  by (simp add: shuffle_def shuffle_loop_rng)

lemma mcq_options_shape:
  "length (snd (mcq_options t bloom verb)) = 3 \<and>
   distinct (snd (mcq_options t bloom verb) @ [fst (mcq_options t bloom verb)])"
  by (simp add: mcq_options_def)

lemma choice_bloom:
  "choice BLOOM_LEVELS g = Inr (BLOOM_LEVELS ! (shd g mod 6), stl g) \<and>
   BLOOM_LEVELS ! (shd g mod 6) \<in> set BLOOM_LEVELS"
proof -
  have len: "length BLOOM_LEVELS = 6" by (simp add: BLOOM_LEVELS_def)
  then have "BLOOM_LEVELS \<noteq> []" by auto
  then have "choice BLOOM_LEVELS g = Inr (BLOOM_LEVELS ! (shd g mod 6), stl g)"
    using choice_nonempty[of BLOOM_LEVELS g] len by simp
  moreover have "BLOOM_LEVELS ! (shd g mod 6) \<in> set BLOOM_LEVELS"
    using len by (metis mod_less_divisor nth_mem zero_less_numeral)
  ultimately show ?thesis by simp
qed



lemma shuffle_four:
  "length xs = 4 \<Longrightarrow> shuffle xs g = (fst (shuffle xs g), sdrop 3 g)"
  using shuffle_rng[of xs g] by (simp add: prod_eq_iff)


lemma generate_mcq_result:
  "\<exists>bloom vs verb correct distractors opts ci.
     choice BLOOM_LEVELS g = Inr (bloom, stl g) \<and> bloom \<in> set BLOOM_LEVELS \<and>
     verbs bloom = Some vs \<and> choice vs (stl g) = Inr (verb, stl (stl g)) \<and> verb \<in> set vs \<and>
     mcq_options t bloom verb = (correct, distractors) \<and>
     length distractors = 3 \<and> distinct (distractors @ [correct]) \<and>
     mset opts = mset (distractors @ [correct]) \<and>
     list_index opts correct = Inr ci \<and> ci < length opts \<and> opts ! ci = correct \<and>
     generate_mcq t grade idx g =
       Inr (\<lparr>qtext = mcq_stem t idx bloom verb, qtype = ''mcq'', options = Some opts,
             correct_index = Some (int ci), answer_text = None, points = 1,
             bloom_level = Some bloom\<rparr>, sdrop 3 (stl (stl g)))"
proof -
  define bloom where "bloom = BLOOM_LEVELS ! (shd g mod 6)"
  have b1: "choice BLOOM_LEVELS g = Inr (bloom, stl g)"
    using choice_bloom[of g] by (simp add: bloom_def)
  have b2: "bloom \<in> set BLOOM_LEVELS"
    using choice_bloom[of g] by (simp add: bloom_def)
  obtain vs where vs1: "verbs bloom = Some vs" and vs2: "vs \<noteq> []"
    using verbs_bloom[OF b2] by blast
  define verb where "verb = vs ! (shd (stl g) mod length vs)"
  have v: "choice vs (stl g) = Inr (verb, stl (stl g))"
    unfolding verb_def by (rule choice_nonempty[OF vs2])
  have vm: "verb \<in> set vs" using choice_mem[OF v] by simp
  define correct where "correct = fst (mcq_options t bloom verb)"
  define distractors where "distractors = snd (mcq_options t bloom verb)"
  have mo: "mcq_options t bloom verb = (correct, distractors)"
    by (simp add: correct_def distractors_def)
  have shape1: "length distractors = 3"
    unfolding distractors_def using mcq_options_shape[of t bloom verb] by blast
  have shape2: "distinct (distractors @ [correct])"
    unfolding distractors_def correct_def using mcq_options_shape[of t bloom verb] by blast
  define opts where "opts = fst (shuffle (distractors @ [correct]) (stl (stl g)))"
  have len4: "length (distractors @ [correct]) = 4" using shape1 by simp
  have sh: "shuffle (distractors @ [correct]) (stl (stl g)) = (opts, sdrop 3 (stl (stl g)))"
    unfolding opts_def by (rule shuffle_four[OF len4])
  have ms: "mset opts = mset (distractors @ [correct])"
    unfolding opts_def by (rule shuffle_mset)
  have "set opts = set (distractors @ [correct])"
    using ms by (rule mset_eq_setD)
  then have "correct \<in> set opts" by simp
  from list_index_mem[OF this]
  obtain ci where ci1: "list_index opts correct = Inr ci" and ci2: "ci < length opts"
    and ci3: "opts ! ci = correct"
    by auto
  have res: "generate_mcq t grade idx g =
       Inr (\<lparr>qtext = mcq_stem t idx bloom verb, qtype = ''mcq'', options = Some opts,
             correct_index = Some (int ci), answer_text = None, points = 1,
             bloom_level = Some bloom\<rparr>, sdrop 3 (stl (stl g)))"
    unfolding generate_mcq_def by (simp only: b1 vs1 v mo sh ci1 sum.case prod.case option.case)
  show ?thesis
    using b1 b2 vs1 v vm mo shape1 shape2 ms ci1 ci2 ci3 res by blast
qed

lemma bloom_group:
  "bloom \<in> set BLOOM_LEVELS \<Longrightarrow>
     bloom \<notin> {''Apply'', ''Analyze'', ''Evaluate'', ''Create''} \<Longrightarrow>
     bloom \<in> {''Remember'', ''Understand''}"
  by (auto simp: BLOOM_LEVELS_def)

subsection \<open>Short-answer questions\<close>


subsection \<open>Multiple-choice questions\<close>

text \<open>
  Claim C3. With the Bloom level and the verb that \<^verbatim>\<open>generate_mcq\<close> draws, the
  text of the question is \<^verbatim>\<open>Q{ordinal+1}. In the context of {topic}, {verb} the correct option.\<close>
  when the level is Apply, Analyze, Evaluate or Create, and otherwise the level is Remember
  or Understand and the text is
  \<^verbatim>\<open>Q{ordinal+1}. Which of the following best relates to {topic}?\<close>.
\<close>

theorem generate_mcq_stem:
  "\<exists>bloom g1 vs verb g2 q g'.
     choice BLOOM_LEVELS g = Inr (bloom, g1) \<and> verbs bloom = Some vs \<and>
     choice vs g1 = Inr (verb, g2) \<and>
     generate_mcq t grade idx g = Inr (q, g') \<and> bloom_level q = Some bloom \<and>
     (if bloom \<in> {''Apply'', ''Analyze'', ''Evaluate'', ''Create''}
      then qtext q = ''Q'' @ str_int (idx + 1) @ ''. In the context of '' @ t @ '', '' @ verb
                       @ '' the correct option.''
      else bloom \<in> {''Remember'', ''Understand''} \<and>
           qtext q = ''Q'' @ str_int (idx + 1) @ ''. Which of the following best relates to ''
                       @ t @ ''?'')"
proof -
  obtain bloom vs verb opts ci where
    b1: "choice BLOOM_LEVELS g = Inr (bloom, stl g)" and b2: "bloom \<in> set BLOOM_LEVELS" and
    vs: "verbs bloom = Some vs" and v: "choice vs (stl g) = Inr (verb, stl (stl g))" and
    res: "generate_mcq t grade idx g =
       Inr (\<lparr>qtext = mcq_stem t idx bloom verb, qtype = ''mcq'', options = Some opts,
             correct_index = Some (int ci), answer_text = None, points = 1,
             bloom_level = Some bloom\<rparr>, sdrop 3 (stl (stl g)))"
    using generate_mcq_result[of g t grade idx] by blast
  let ?q = "\<lparr>qtext = mcq_stem t idx bloom verb, qtype = ''mcq'', options = Some opts,
             correct_index = Some (int ci), answer_text = None, points = 1,
             bloom_level = Some bloom\<rparr>"
  have stem: "if bloom \<in> {''Apply'', ''Analyze'', ''Evaluate'', ''Create''}
      then qtext ?q = ''Q'' @ str_int (idx + 1) @ ''. In the context of '' @ t @ '', '' @ verb
                       @ '' the correct option.''
      else bloom \<in> {''Remember'', ''Understand''} \<and>
           qtext ?q = ''Q'' @ str_int (idx + 1) @ ''. Which of the following best relates to ''
                       @ t @ ''?''"
    using bloom_group[OF b2] by (simp add: mcq_stem_def)
  have bl: "bloom_level ?q = Some bloom" by simp
  show ?thesis
    using b1 vs v res bl stem by blast
qed

end
